theory Spec2Isabelle
  imports Complex_Main "HOL-Library.Sublist" "HOL-Library.AList"
begin

section \<open>Values of the program\<close>

text \<open>
  A Python \<open>str\<close> is a sequence of Unicode code points: slicing (\<open>text[:1000]\<close>) and
  \<open>in\<close> count code points, so a string is a list of code point numbers. \<open>cps\<close> turns an
  ASCII literal into such a string.
\<close>

type_synonym pystr = "nat list"

definition cps :: "string \<Rightarrow> pystr" where
  "cps s = map of_char s"

text \<open>
  An exception is a value. \<open>Error m\<close> is an instance of a subclass of \<open>Exception\<close>
  whose \<open>str(e)\<close> is \<open>m\<close>; \<open>Signal m\<close> is a \<open>BaseException\<close> that is not an
  \<open>Exception\<close> (KeyboardInterrupt, SystemExit, task cancellation), which the clause
  \<open>except Exception\<close> of the source does not catch.
\<close>

datatype exn = Error pystr | Signal pystr

text \<open>What \<open>json.loads\<close> returns: None, bool, int, float, str, list or dict.\<close>

datatype pyfloat = Finite rat | Infinity bool | NaN

datatype json =
    JNull
  | JBool bool
  | JInt int
  | JFloat pyfloat
  | JStr pystr
  | JArr "json list"
  | JObj "(pystr \<times> json) list"

text \<open>
  The calls of \<open>logging\<close> in the source, one constructor for each call site, holding the
  values its message interpolates: line 61 (error), 99 (error), 122 (error), 126 (error),
  191 (error), 208 (error) and 214 (info).
\<close>

datatype log_record =
    RequestFailed pystr
  | BlockingDetected int
  | LlmDetectedBlocking "json option"
  | LlmBlockCheckError pystr
  | LlmExtractionError pystr
  | ScrapingBlocked
  | SavedHtml

text \<open>
  What the program does to the outside world, in the order it does it: the GET request
  (URL, headers), the call of \<open>chat.completions.create\<close> (model, content of the one user
  message), the call of the HTML parser (markup), the write of a file (path, text), and a
  log record.
\<close>

datatype event =
    HttpGet pystr "(pystr \<times> pystr) list"
  | ChatCreate pystr pystr
  | SoupParse pystr
  | FileWrite pystr pystr
  | Log log_record

section \<open>The outside world\<close>

text \<open>
  Everything the source calls and this repository does not define is a field of the
  environment: the lower-case mapping of Python for code points from 256 on (a table of
  CPython), the index \<open>random.choice\<close> draws, the HTTP transport (body text and status,
  or the exception of the session, the request or the decoding), the completion service
  (the \<open>message.content\<close> of each choice, or an exception), \<open>json.loads\<close>,
  \<open>datetime.now().isoformat()\<close>, opening and writing a file, \<open>urlparse(url).netloc\<close>
  and the BeautifulSoup calls on a parsed document of type \<open>'s\<close> with elements of type
  \<open>'e\<close>: the constructor, \<open>soup([names])\<close>, \<open>decompose\<close>, \<open>find_all(class_=f)\<close>,
  \<open>find(class_=f)\<close> and \<open>str(element)\<close>.
\<close>

record ('s, 'e) env =
  unicode_lower :: "nat \<Rightarrow> pystr"
  random_index :: nat
  http_get :: "pystr \<Rightarrow> (pystr \<times> pystr) list \<Rightarrow> exn + pystr \<times> int"
  chat_create :: "pystr \<Rightarrow> pystr \<Rightarrow> exn + pystr option list"
  json_loads :: "pystr \<Rightarrow> exn + json"
  now_isoformat :: pystr
  file_write :: "pystr \<Rightarrow> pystr \<Rightarrow> exn + unit"
  urlparse_netloc :: "pystr \<Rightarrow> pystr"
  bs_parse :: "pystr \<Rightarrow> exn + 's"
  bs_select :: "'s \<Rightarrow> pystr list \<Rightarrow> 'e list"
  bs_decompose :: "'e \<Rightarrow> 's \<Rightarrow> 's"
  bs_find_all :: "'s \<Rightarrow> (pystr option \<Rightarrow> bool) \<Rightarrow> 'e list"
  bs_find :: "'s \<Rightarrow> (pystr option \<Rightarrow> bool) \<Rightarrow> 'e option"
  bs_str :: "'e \<Rightarrow> pystr"

section \<open>Computations with exceptions and a trace\<close>

text \<open>
  A computation returns a value or raises, and emits events on the way. Events emitted
  before a raise stay emitted.
\<close>

type_synonym 'a io = "(exn + 'a) \<times> event list"

definition ret :: "'a \<Rightarrow> 'a io" where
  "ret x = (Inr x, [])"

definition emit :: "event \<Rightarrow> unit io" where
  "emit ev = (Inr (), [ev])"

definition lift :: "exn + 'a \<Rightarrow> 'a io" where
  "lift r = (r, [])"

definition io_bind :: "'a io \<Rightarrow> ('a \<Rightarrow> 'b io) \<Rightarrow> 'b io" where
  "io_bind m f =
     (case m of
        (Inl e, evs) \<Rightarrow> (Inl e, evs)
      | (Inr x, evs) \<Rightarrow> (case f x of (r, evs') \<Rightarrow> (r, evs @ evs')))"

text \<open>\<open>try: body except Exception as e: handler(str(e))\<close>.\<close>

definition try_except :: "'a io \<Rightarrow> (pystr \<Rightarrow> 'a io) \<Rightarrow> 'a io" where
  "try_except body handler =
     (case body of
        (Inl (Error m), evs) \<Rightarrow> (case handler m of (r, evs') \<Rightarrow> (r, evs @ evs'))
      | (Inl (Signal m), evs) \<Rightarrow> (Inl (Signal m), evs)
      | (Inr x, evs) \<Rightarrow> (Inr x, evs))"

section \<open>Library functions of Python the source uses\<close>

text \<open>
  \<open>str.lower()\<close>: exact below 256 (A to Z, and the capital letters of Latin-1 from
  U+00C0 to U+00DE without the multiplication sign U+00D7, move up by 32), the table of
  the environment from 256 on (one code point may become several).
\<close>

definition lower_cp :: "('s, 'e) env \<Rightarrow> nat \<Rightarrow> pystr" where
  "lower_cp E c =
     (if 65 \<le> c \<and> c \<le> 90 then [c + 32]
      else if 192 \<le> c \<and> c \<le> 222 \<and> c \<noteq> 215 then [c + 32]
      else if c < 256 then [c]
      else unicode_lower E c)"

definition lower :: "('s, 'e) env \<Rightarrow> pystr \<Rightarrow> pystr" where
  "lower E s = concat (map (lower_cp E) s)"

text \<open>\<open>any(xs)\<close> on a list of booleans.\<close>

definition any :: "bool list \<Rightarrow> bool" where
  "any bs = list_ex (\<lambda>b. b) bs"

text \<open>\<open>random.choice(seq)\<close>: IndexError on an empty sequence.\<close>

definition random_choice :: "('s, 'e) env \<Rightarrow> 'a list \<Rightarrow> exn + 'a" where
  "random_choice E xs =
     (if xs = [] then Inl (Error (cps ''Cannot choose from an empty sequence''))
      else Inr (xs ! (random_index E mod length xs)))"

text \<open>Truth value of a parsed JSON value, as \<open>if v:\<close> takes it.\<close>

fun truthy :: "json \<Rightarrow> bool" where
  "truthy JNull = False"
| "truthy (JBool b) = b"
| "truthy (JInt i) = (i \<noteq> 0)"
| "truthy (JFloat (Finite q)) = (q \<noteq> 0)"
| "truthy (JFloat (Infinity b)) = True"
| "truthy (JFloat NaN) = True"
| "truthy (JStr s) = (s \<noteq> [])"
| "truthy (JArr xs) = (xs \<noteq> [])"
| "truthy (JObj kvs) = (kvs \<noteq> [])"

text \<open>
  \<open>result.get(key)\<close> on a parsed JSON value: the value or None on a dict, AttributeError
  on anything else (None, bool, int, float, str and list have no \<open>get\<close>).
\<close>

definition py_get :: "json \<Rightarrow> pystr \<Rightarrow> exn + json option" where
  "py_get v k =
     (case v of
        JObj kvs \<Rightarrow> Inr (map_of kvs k)
      | _ \<Rightarrow> Inl (Error (cps ''object has no attribute get'')))"

text \<open>
  \<open>d.update({k1: v1, k2: v2})\<close> on a parsed JSON value: on a dict each key in turn is
  replaced where it stands or added at the end; AttributeError on anything else.
\<close>

definition py_update :: "json \<Rightarrow> (pystr \<times> json) list \<Rightarrow> exn + (pystr \<times> json) list" where
  "py_update v new =
     (case v of
        JObj kvs \<Rightarrow> Inr (fold (\<lambda>(k, x). AList.update k x) new kvs)
      | _ \<Rightarrow> Inl (Error (cps ''object has no attribute update'')))"

text \<open>
  \<open>json.loads(response.choices[0].message.content)\<close>: IndexError when there is no choice,
  TypeError when the content is None, else what \<open>json.loads\<close> does.
\<close>

definition first_content :: "pystr option list \<Rightarrow> exn + pystr option" where
  "first_content choices =
     (case choices of
        [] \<Rightarrow> Inl (Error (cps ''list index out of range''))
      | c # _ \<Rightarrow> Inr c)"

definition loads :: "('s, 'e) env \<Rightarrow> pystr option \<Rightarrow> exn + json" where
  "loads E content =
     (case content of
        None \<Rightarrow> Inl (Error (cps ''the JSON object must be str, bytes or bytearray, not NoneType''))
      | Some s \<Rightarrow> json_loads E s)"

definition reply_json :: "('s, 'e) env \<Rightarrow> pystr option list \<Rightarrow> exn + json" where
  "reply_json E choices =
     (case first_content choices of
        Inl e \<Rightarrow> Inl e
      | Inr c \<Rightarrow> loads E c)"

section \<open>SmartScraper\<close>

record SmartScraper =
  url :: pystr
  domain :: pystr
  deployment_name :: pystr
  user_agents :: "pystr list"

text \<open>
  \<open>__init__\<close>: the URL, its network location, the deployment name of the configuration
  and the three user agents. (The prints and the construction of the service client are
  not modelled.)
\<close>

definition init :: "('s, 'e) env \<Rightarrow> pystr \<Rightarrow> pystr \<Rightarrow> SmartScraper" where
  "init E deployment u =
     \<lparr>url = u,
      domain = urlparse_netloc E u,
      deployment_name = deployment,
      user_agents =
        [cps ''Mozilla/5.0 (Windows NT 10.0; Win64; x64) AppleWebKit/537.36 (KHTML, like Gecko) Chrome/91.0.4472.124 Safari/537.36'',
         cps ''Mozilla/5.0 (Windows NT 10.0; Win64; x64; rv:89.0) Gecko/20100101 Firefox/89.0'',
         cps ''Mozilla/5.0 (Macintosh; Intel Mac OS X 10_15_7) AppleWebKit/605.1.15 (KHTML, like Gecko) Version/14.1.1 Safari/605.1.15'']\<rparr>"

subsection \<open>\<open>_get_headers\<close> and \<open>_safe_request\<close>\<close>

definition get_headers :: "('s, 'e) env \<Rightarrow> SmartScraper \<Rightarrow> exn + (pystr \<times> pystr) list" where
  "get_headers E self =
     (case random_choice E (user_agents self) of
        Inl e \<Rightarrow> Inl e
      | Inr agent \<Rightarrow>
          Inr [(cps ''User-Agent'', agent),
               (cps ''Accept'', cps ''text/html,application/xhtml+xml,application/xml;q=0.9,*/*;q=0.8''),
               (cps ''Accept-Language'', cps ''en-US,en;q=0.5''),
               (cps ''Accept-Encoding'', cps ''gzip, deflate, br''),
               (cps ''DNT'', cps ''1''),
               (cps ''Connection'', cps ''keep-alive'')])"

text \<open>
  The body of the \<open>try\<close>: the headers, then one GET. The handler logs and returns
  \<open>(None, 500)\<close>.
\<close>

definition safe_request :: "('s, 'e) env \<Rightarrow> SmartScraper \<Rightarrow> (pystr option \<times> int) io" where
  "safe_request E self =
     try_except
       (io_bind (lift (get_headers E self)) (\<lambda>headers.
        io_bind (emit (HttpGet (url self) headers)) (\<lambda>_.
        io_bind (lift (http_get E (url self) headers)) (\<lambda>(content, status).
        ret (Some content, status)))))
       (\<lambda>m. io_bind (emit (Log (RequestFailed m))) (\<lambda>_. ret (None, 500)))"

subsection \<open>\<open>_check_for_blocking\<close>\<close>

definition blocking_indicators :: "('s, 'e) env \<Rightarrow> pystr \<Rightarrow> int \<Rightarrow> bool list" where
  "blocking_indicators E response_text status_code =
     [status_code \<in> set [403, 429, 503],
      sublist (cps ''captcha'') (lower E response_text),
      sublist (cps ''access denied'') (lower E response_text),
      sublist (cps ''rate limit'') (lower E response_text)]"

definition block_prompt :: pystr where
  "block_prompt = cps (
     ''Analyze this HTML response and determine if it shows signs of blocking or anti-bot measures.\<newline>'' @
     ''            Consider things like:\<newline>'' @
     ''            - Presence of CAPTCHAs\<newline>'' @
     ''            - Access denied messages\<newline>'' @
     ''            - Robot detection messages\<newline>'' @
     ''            - Unusual redirects\<newline>'' @
     ''            \<newline>'' @
     ''            Response format: JSON with keys 'is_blocked' (boolean) and 'reason' (string)'')"

definition block_message :: "pystr \<Rightarrow> pystr" where
  "block_message response_text =
     block_prompt @ cps ''\<newline>\<newline>First 1000 chars of HTML: '' @ take 1000 response_text"

text \<open>
  The body of the \<open>try\<close> returns \<open>Some True\<close> where the source returns True inside it
  and \<open>None\<close> where control falls through to the final \<open>return False\<close>.
\<close>

definition check_for_blocking :: "('s, 'e) env \<Rightarrow> SmartScraper \<Rightarrow> pystr \<Rightarrow> int \<Rightarrow> bool io" where
  "check_for_blocking E self response_text status_code =
     (if any (blocking_indicators E response_text status_code) then
        io_bind (emit (Log (BlockingDetected status_code))) (\<lambda>_. ret True)
      else
        io_bind
          (try_except
             (io_bind (emit (ChatCreate (deployment_name self) (block_message response_text))) (\<lambda>_.
              io_bind (lift (chat_create E (deployment_name self) (block_message response_text))) (\<lambda>choices.
              io_bind (lift (reply_json E choices)) (\<lambda>result.
              io_bind (lift (py_get result (cps ''is_blocked''))) (\<lambda>is_blocked.
              if (case is_blocked of None \<Rightarrow> False | Some v \<Rightarrow> truthy v) then
                io_bind (lift (py_get result (cps ''reason''))) (\<lambda>reason.
                io_bind (emit (Log (LlmDetectedBlocking reason))) (\<lambda>_.
                ret (Some True)))
              else ret None)))))
             (\<lambda>m. io_bind (emit (Log (LlmBlockCheckError m))) (\<lambda>_. ret None)))
          (\<lambda>returned. case returned of Some b \<Rightarrow> ret b | None \<Rightarrow> ret False))"

subsection \<open>\<open>_extract_data_with_llm\<close>\<close>

text \<open>
  The function given as \<open>class_\<close>: \<open>lambda x: x and any(term in x.lower() for term in terms)\<close>,
  taken for its truth value. \<open>x\<close> is None or a string.
\<close>

definition class_has_term :: "('s, 'e) env \<Rightarrow> pystr list \<Rightarrow> pystr option \<Rightarrow> bool" where
  "class_has_term E terms x =
     (case x of
        None \<Rightarrow> False
      | Some c \<Rightarrow> c \<noteq> [] \<and> any (map (\<lambda>term. sublist term (lower E c)) terms))"

text \<open>\<open>sep.join(strings)\<close>, and \<open>str(x)\<close> of an element or None.\<close>

fun join :: "pystr \<Rightarrow> pystr list \<Rightarrow> pystr" where
  "join sep [] = []"
| "join sep [x] = x"
| "join sep (x # y # ys) = x @ sep @ join sep (y # ys)"

definition str_of_found :: "('s, 'e) env \<Rightarrow> 'e option \<Rightarrow> pystr" where
  "str_of_found E found = (case found of None \<Rightarrow> cps ''None'' | Some el \<Rightarrow> bs_str E el)"

definition clean_html_of :: "pystr list \<Rightarrow> pystr \<Rightarrow> pystr" where
  "clean_html_of price_strings product_section =
     cps ''\<newline>            Price-related elements:\<newline>            '' @
     join (cps '' '') price_strings @
     cps ''\<newline>            \<newline>            Product section:\<newline>            '' @
     product_section @
     cps ''\<newline>            ''"

text \<open>The instruction of line 159; 8364 is the euro sign and 8594 the arrow to the right.\<close>

definition extract_prompt :: pystr where
  \<open>extract_prompt =
     cps (''Extract product information from this HTML. \<newline>'' @
          ''            Find the following information:\<newline>'' @
          ''            - Product name\<newline>'' @
          ''            - Current price (as a decimal number, e.g., 9.99)\<newline>'' @
          ''            - Currency symbol or code (e.g., '') @ [8364] @
     cps ('', EUR)\<newline>'' @
          ''            - Any promotional text or deals\<newline>'' @
          ''            \<newline>'' @
          ''            Important: \<newline>'' @
          ''            - Look for price elements with classes containing 'price', 'prijs', 'amount'\<newline>'' @
          ''            - Price might be formatted as "9.99", "'') @ [8364] @
     cps (''9.99", "9,99 EUR", or similar\<newline>'' @
          ''            - Convert comma-separated prices to decimal (e.g., "9,99" '') @ [8594] @
     cps ('' 9.99)\<newline>'' @
          ''            \<newline>'' @
          ''            Format the response as JSON with keys: 'name', 'price' (number), 'currency', 'promotion' (null if none)'')\<close>

definition extract_message :: "pystr \<Rightarrow> pystr" where
  "extract_message clean_html =
     extract_prompt @ cps ''\<newline>\<newline>HTML content: '' @ take 4000 clean_html"

text \<open>
  The reduction of the markup (lines 141 to 157): parse, remove every script and style
  element, collect the elements whose class holds a price term and the first one whose
  class holds a product term, and put their markup in the labelled text.
\<close>

definition reduce_html :: "('s, 'e) env \<Rightarrow> pystr \<Rightarrow> pystr io" where
  "reduce_html E html_content =
     io_bind (emit (SoupParse html_content)) (\<lambda>_.
     io_bind (lift (bs_parse E html_content)) (\<lambda>parsed.
     let soup = fold (bs_decompose E) (bs_select E parsed [cps ''script'', cps ''style'']) parsed;
         price_elements =
           bs_find_all E soup
             (class_has_term E [cps ''price'', cps ''prijs'', cps ''amount'', cps ''bedrag'']);
         product_section =
           str_of_found E
             (bs_find E soup (class_has_term E [cps ''product'', cps ''artikel'', cps ''item'']))
     in ret (clean_html_of (map (bs_str E) price_elements) product_section)))"

definition extract_data_with_llm ::
  "('s, 'e) env \<Rightarrow> SmartScraper \<Rightarrow> pystr \<Rightarrow> (pystr \<times> json) list option io" where
  "extract_data_with_llm E self html_content =
     try_except
       (io_bind (reduce_html E html_content) (\<lambda>clean_html.
        io_bind (emit (ChatCreate (deployment_name self) (extract_message clean_html))) (\<lambda>_.
        io_bind (lift (chat_create E (deployment_name self) (extract_message clean_html))) (\<lambda>choices.
        io_bind (lift (reply_json E choices)) (\<lambda>extracted_data.
        io_bind (lift (py_update extracted_data
                         [(cps ''timestamp'', JStr (now_isoformat E)),
                          (cps ''url'', JStr (url self))])) (\<lambda>stamped.
        ret (Some stamped)))))))
       (\<lambda>m. io_bind (emit (Log (LlmExtractionError m))) (\<lambda>_. ret None))"

subsection \<open>\<open>scrape\<close>\<close>

definition scrape :: "('s, 'e) env \<Rightarrow> SmartScraper \<Rightarrow> (pystr \<times> json) list option io" where
  "scrape E self =
     io_bind (safe_request E self) (\<lambda>(html_content, status_code).
       case html_content of
         None \<Rightarrow> ret None
       | Some html \<Rightarrow>
           io_bind (check_for_blocking E self html status_code) (\<lambda>blocked.
             if blocked then io_bind (emit (Log ScrapingBlocked)) (\<lambda>_. ret None)
             else
               io_bind (emit (FileWrite (cps ''last_response.html'') html)) (\<lambda>_.
               io_bind (lift (file_write E (cps ''last_response.html'') html)) (\<lambda>_.
               io_bind (emit (Log SavedHtml)) (\<lambda>_.
               extract_data_with_llm E self html)))))"

section \<open>What the specification talks about\<close>

text \<open>
  The specification's "contains, in any case": the text holds, somewhere, the needle
  (a lower-case ASCII text) with any of its letters in upper case.
\<close>

definition same_letter :: "nat \<Rightarrow> nat \<Rightarrow> bool" where
  "same_letter c d = (c = d \<or> (97 \<le> d \<and> d \<le> 122 \<and> d = c + 32))"

definition spec_contains_any_case :: "pystr \<Rightarrow> pystr \<Rightarrow> bool" where
  "spec_contains_any_case needle text =
     (\<exists>before found after. text = before @ found @ after \<and> list_all2 same_letter found needle)"

text \<open>Stage 1 of the specification's block detector.\<close>

definition spec_heuristic_condition :: "pystr \<Rightarrow> int \<Rightarrow> bool" where
  "spec_heuristic_condition body status =
     (status = 403 \<or> status = 429 \<or> status = 503 \<or>
      spec_contains_any_case (cps ''captcha'') body \<or>
      spec_contains_any_case (cps ''access denied'') body \<or>
      spec_contains_any_case (cps ''rate limit'') body)"

text \<open>Kinds of events.\<close>

fun is_http_get :: "event \<Rightarrow> bool" where
  "is_http_get (HttpGet u headers) = True"
| "is_http_get _ = False"

fun is_chat_create :: "event \<Rightarrow> bool" where
  "is_chat_create (ChatCreate model content) = True"
| "is_chat_create _ = False"

fun is_file_write :: "event \<Rightarrow> bool" where
  "is_file_write (FileWrite path content) = True"
| "is_file_write _ = False"

text \<open>
  The events only \<open>_extract_data_with_llm\<close> emits: the parse that starts the reduction of
  the markup, and a call of the service whose message starts with the extraction
  instruction.
\<close>

fun is_extraction_event :: "event \<Rightarrow> bool" where
  "is_extraction_event (SoupParse markup) = True"
| "is_extraction_event (ChatCreate model content) = prefix extract_prompt content"
| "is_extraction_event _ = False"


section \<open>A mocked outside world\<close>

text \<open>
  A page with a price, a service that answers the classifier's message (which starts with
  "A") and the extractor's (which starts with "E"), a parser for the replies used here,
  a fixed clock, a disk that takes the write, and a document model in which a document is
  its markup and no element matches.
\<close>

definition example_body :: pystr where
  \<open>example_body = cps ''<html><span class="price">9,99</span></html>''\<close>

definition example_replies :: "(pystr \<times> json) list" where
  \<open>example_replies =
     [(cps ''{"is_blocked": false}'', JObj [(cps ''is_blocked'', JBool False)]),
      (cps ''{"name": "Soap", "price": 9.99}'',
         JObj [(cps ''name'', JStr (cps ''Soap'')), (cps ''price'', JFloat (Finite (999 / 100)))]),
      (cps ''{"name": "Soap", "price": "free"}'',
         JObj [(cps ''name'', JStr (cps ''Soap'')), (cps ''price'', JStr (cps ''free''))]),
      (cps ''{"url": "http://other.example", "timestamp": "never", "name": "Soap"}'',
         JObj [(cps ''url'', JStr (cps ''http://other.example'')),
               (cps ''timestamp'', JStr (cps ''never'')),
               (cps ''name'', JStr (cps ''Soap''))]),
      (cps ''[1]'', JArr [JInt 1]),
      (cps ''{"is_blocked": true, "reason": "robot check"}'',
         JObj [(cps ''is_blocked'', JBool True), (cps ''reason'', JStr (cps ''robot check''))])]\<close>

definition example_loads :: "pystr \<Rightarrow> exn + json" where
  "example_loads s =
     (case map_of example_replies s of
        Some v \<Rightarrow> Inr v
      | None \<Rightarrow> Inl (Error (cps ''Expecting value'')))"

definition example_chat :: "pystr \<Rightarrow> pystr \<Rightarrow> pystr \<Rightarrow> exn + pystr option list" where
  \<open>example_chat extractor_reply model content =
     (if hd content = 65 then Inr [Some (cps ''{"is_blocked": false}'')]
      else Inr [Some extractor_reply])\<close>

definition example_env :: "(pystr, pystr) env" where
  \<open>example_env =
     \<lparr>unicode_lower = (\<lambda>c. [c]),
      random_index = 4,
      http_get = (\<lambda>u headers. Inr (example_body, 200)),
      chat_create = example_chat (cps ''{"name": "Soap", "price": 9.99}''),
      json_loads = example_loads,
      now_isoformat = cps ''2024-05-01T12:00:00'',
      file_write = (\<lambda>path content. Inr ()),
      urlparse_netloc = (\<lambda>u. cps ''shop.example''),
      bs_parse = (\<lambda>markup. Inr markup),
      bs_select = (\<lambda>soup names. []),
      bs_decompose = (\<lambda>el soup. soup),
      bs_find_all = (\<lambda>soup f. []),
      bs_find = (\<lambda>soup f. None),
      bs_str = (\<lambda>el. el)\<rparr>\<close>

definition example_scraper :: SmartScraper where
  "example_scraper = init example_env (cps ''gpt-4o'') (cps ''https://shop.example/soap'')"

definition example_headers :: "(pystr \<times> pystr) list" where
  "example_headers =
     [(cps ''User-Agent'', cps ''Mozilla/5.0 (Windows NT 10.0; Win64; x64; rv:89.0) Gecko/20100101 Firefox/89.0''),
      (cps ''Accept'', cps ''text/html,application/xhtml+xml,application/xml;q=0.9,*/*;q=0.8''),
      (cps ''Accept-Language'', cps ''en-US,en;q=0.5''),
      (cps ''Accept-Encoding'', cps ''gzip, deflate, br''),
      (cps ''DNT'', cps ''1''),
      (cps ''Connection'', cps ''keep-alive'')]"

text \<open>What the mocked world gives: the record, and the reduced markup.\<close>

definition example_record :: "(pystr \<times> json) list" where
  "example_record =
     [(cps ''name'', JStr (cps ''Soap'')),
      (cps ''price'', JFloat (Finite (999 / 100))),
      (cps ''timestamp'', JStr (cps ''2024-05-01T12:00:00'')),
      (cps ''url'', JStr (cps ''https://shop.example/soap''))]"

definition example_clean_html :: pystr where
  "example_clean_html = clean_html_of [] (cps ''None'')"

text \<open>Variants of the mocked world: one thing changed each.\<close>

definition env_service_down :: "(pystr, pystr) env" where
  "env_service_down =
     example_env\<lparr>chat_create := (\<lambda>model content. Inl (Error (cps ''Service unavailable'')))\<rparr>"

definition env_transport_down :: "(pystr, pystr) env" where
  "env_transport_down =
     example_env\<lparr>http_get := (\<lambda>u headers. Inl (Error (cps ''Connection reset by peer'')))\<rparr>"

definition env_forbidden :: "(pystr, pystr) env" where
  "env_forbidden = example_env\<lparr>http_get := (\<lambda>u headers. Inr (cps ''Forbidden'', 403))\<rparr>"

definition env_disk_full :: "(pystr, pystr) env" where
  "env_disk_full =
     example_env\<lparr>file_write := (\<lambda>path content. Inl (Error (cps ''No space left on device'')))\<rparr>"

definition env_parser_fails :: "(pystr, pystr) env" where
  "env_parser_fails =
     example_env\<lparr>bs_parse := (\<lambda>markup. Inl (Error (cps ''maximum recursion depth exceeded'')))\<rparr>"

definition env_array_reply :: "(pystr, pystr) env" where
  "env_array_reply = example_env\<lparr>chat_create := example_chat (cps ''[1]'')\<rparr>"

definition env_free_price :: "(pystr, pystr) env" where
  \<open>env_free_price =
     example_env\<lparr>chat_create := example_chat (cps ''{"name": "Soap", "price": "free"}'')\<rparr>\<close>

definition env_own_url :: "(pystr, pystr) env" where
  \<open>env_own_url =
     example_env\<lparr>chat_create :=
       example_chat (cps ''{"url": "http://other.example", "timestamp": "never", "name": "Soap"}'')\<rparr>\<close>

definition env_classifier_blocks :: "(pystr, pystr) env" where
  \<open>env_classifier_blocks =
     example_env\<lparr>chat_create :=
       (\<lambda>model content. Inr [Some (cps ''{"is_blocked": true, "reason": "robot check"}'')])\<rparr>\<close>


section \<open>Computations: basic facts\<close>

lemma io_bind_ret: "io_bind (ret x) f = f x"
  by (simp add: io_bind_def ret_def split: prod.splits)

lemma io_bind_emit: "io_bind (emit ev) f = (fst (f ()), ev # snd (f ()))"
  by (simp add: io_bind_def emit_def split: prod.splits)

lemma io_bind_lift_Inr: "io_bind (lift (Inr x)) f = f x"
  by (simp add: io_bind_def lift_def split: prod.splits)

lemma io_bind_lift_Inl: "io_bind (lift (Inl e)) f = (Inl e, [])"
  by (simp add: io_bind_def lift_def)

lemma io_bind_Inr: "io_bind (Inr x, evs) f = (fst (f x), evs @ snd (f x))"
  by (simp add: io_bind_def split: prod.splits)

lemma io_bind_Inl: "io_bind (Inl e, evs) f = (Inl e, evs)"
  by (simp add: io_bind_def)

lemmas io_simps = io_bind_ret io_bind_emit io_bind_lift_Inr io_bind_lift_Inl io_bind_Inr io_bind_Inl

lemma try_except_Inr: "try_except (Inr x, evs) h = (Inr x, evs)"
  by (simp add: try_except_def)

lemma try_except_Error: "try_except (Inl (Error m), evs) h = (fst (h m), evs @ snd (h m))"
  by (simp add: try_except_def split: prod.splits)

lemma try_except_Signal: "try_except (Inl (Signal m), evs) h = (Inl (Signal m), evs)"
  by (simp add: try_except_def)

lemmas try_simps = try_except_Inr try_except_Error try_except_Signal

lemma check_for_blocking_clear:
  assumes "\<not> any (blocking_indicators E body status)"
  shows "\<exists>rest. snd (check_for_blocking E self body status) =
           ChatCreate (deployment_name self) (block_message body) # rest
         \<and> (rest = [] \<or> (\<exists>r. rest = [Log r]))"
proof (cases "chat_create E (deployment_name self) (block_message body)")
  case (Inl e)
  then show ?thesis using assms
    by (cases e) (simp_all add: check_for_blocking_def io_simps try_simps ret_def)
next
  case choices: (Inr choices)
  show ?thesis
  proof (cases "reply_json E choices")
    case (Inl e)
    then show ?thesis using assms choices
      by (cases e) (simp_all add: check_for_blocking_def io_simps try_simps ret_def)
  next
    case (Inr result)
    then show ?thesis using assms choices
      by (cases result)
        (auto simp: check_for_blocking_def io_simps try_simps ret_def py_get_def
          split: option.splits)
  qed
qed


lemma lower_append: "lower E (u @ v) = lower E u @ lower E v"
  by (simp add: lower_def)

lemma lower_same_letter:
  assumes "list_all2 same_letter found needle"
    and "\<forall>d \<in> set needle. (d < 65 \<or> 90 < d) \<and> d < 192"
  shows "lower E found = needle"
  using assms
proof (induction found needle rule: list_all2_induct)
  case Nil
  then show ?case by (simp add: lower_def)
next
  case (Cons c cs d ds)
  have "lower_cp E c = [d]"
    using Cons.hyps(1) Cons.prems by (auto simp: same_letter_def lower_cp_def)
  moreover have "lower E cs = ds"
    using Cons.IH Cons.prems by simp
  ultimately show ?case by (simp add: lower_def)
qed

lemma contains_any_case_lower:
  assumes "spec_contains_any_case needle text"
    and "\<forall>d \<in> set needle. (d < 65 \<or> 90 < d) \<and> d < 192"
  shows "sublist needle (lower E text)"
proof -
  from assms(1) obtain before found after
    where t: "text = before @ found @ after" and f: "list_all2 same_letter found needle"
    unfolding spec_contains_any_case_def by blast
  have "lower E found = needle" using lower_same_letter [OF f assms(2)] .
  then have "lower E text = lower E before @ needle @ lower E after"
    by (simp add: t lower_append)
  then show ?thesis by simp
qed

lemma heuristic_condition_any:
  assumes "spec_heuristic_condition body status"
  shows "any (blocking_indicators E body status)"
proof -
  have a: "\<forall>d \<in> set (cps ''captcha''). (d < 65 \<or> 90 < d) \<and> d < 192"
    by (simp add: cps_def)
  have b: "\<forall>d \<in> set (cps ''access denied''). (d < 65 \<or> 90 < d) \<and> d < 192"
    by (simp add: cps_def)
  have c: "\<forall>d \<in> set (cps ''rate limit''). (d < 65 \<or> 90 < d) \<and> d < 192"
    by (simp add: cps_def)
  from assms consider "status = 403 \<or> status = 429 \<or> status = 503"
    | "spec_contains_any_case (cps ''captcha'') body"
    | "spec_contains_any_case (cps ''access denied'') body"
    | "spec_contains_any_case (cps ''rate limit'') body"
    unfolding spec_heuristic_condition_def by blast
  then show ?thesis
  proof cases
    case 1
    then show ?thesis by (auto simp: any_def blocking_indicators_def)
  next
    case 2
    from contains_any_case_lower [OF 2 a, of E] show ?thesis
      by (simp add: any_def blocking_indicators_def)
  next
    case 3
    from contains_any_case_lower [OF 3 b, of E] show ?thesis
      by (simp add: any_def blocking_indicators_def)
  next
    case 4
    from contains_any_case_lower [OF 4 c, of E] show ?thesis
      by (simp add: any_def blocking_indicators_def)
  qed
qed

lemma check_for_blocking_fail_open:
  assumes "\<not> any (blocking_indicators E body status)"
    and "chat_create E (deployment_name self) (block_message body) = Inl (Error m) \<or>
         (\<exists>choices. chat_create E (deployment_name self) (block_message body) = Inr choices \<and>
                    reply_json E choices = Inl (Error m))"
  shows "check_for_blocking E self body status =
           (Inr False, [ChatCreate (deployment_name self) (block_message body),
                        Log (LlmBlockCheckError m)])"
  using assms
  by (auto simp: check_for_blocking_def io_simps try_simps ret_def)

lemma get_headers_example: "get_headers example_env example_scraper = Inr example_headers"
  by (simp add: get_headers_def random_choice_def example_env_def example_scraper_def
      init_def example_headers_def)

lemma safe_request_cases:
  assumes "get_headers E self = Inr headers"
  shows "safe_request E self =
           (case http_get E (url self) headers of
              Inl (Error m) \<Rightarrow>
                (Inr (None, 500), [HttpGet (url self) headers, Log (RequestFailed m)])
            | Inl (Signal m) \<Rightarrow> (Inl (Signal m), [HttpGet (url self) headers])
            | Inr (content, status) \<Rightarrow>
                (Inr (Some content, status), [HttpGet (url self) headers]))"
  using assms
  by (cases "http_get E (url self) headers")
    (auto simp: safe_request_def io_simps try_simps ret_def split: exn.splits)

section \<open>Block detection\<close>

text \<open>
  C1. If the status code is 403, 429 or 503, or the body holds "captcha", "access denied"
  or "rate limit" in any case, \<open>_check_for_blocking\<close> returns True and the only thing it
  does is the log record of the heuristic stage (line 99): the service is not called.
  This holds for every body when the status is one of the three, and for every status
  when the body holds one of the three texts.
\<close>

theorem heuristic_block_without_classifier:
  assumes "spec_heuristic_condition body status"
  shows "check_for_blocking E self body status = (Inr True, [Log (BlockingDetected status)])"
  using heuristic_condition_any [OF assms, of E]
  by (simp add: check_for_blocking_def io_bind_emit ret_def)

theorem heuristic_block_without_classifier_witness:
  "spec_heuristic_condition (cps ''<h1>Solve this CAPTCHA</h1>'') 200 \<and>
   check_for_blocking example_env example_scraper (cps ''<h1>Solve this CAPTCHA</h1>'') 200 =
     (Inr True, [Log (BlockingDetected 200)])"
proof -
  have "cps ''<h1>Solve this CAPTCHA</h1>'' =
          cps ''<h1>Solve this '' @ cps ''CAPTCHA'' @ cps ''</h1>'' \<and>
        list_all2 same_letter (cps ''CAPTCHA'') (cps ''captcha'')"
    by (simp add: cps_def same_letter_def)
  then have "spec_contains_any_case (cps ''captcha'') (cps ''<h1>Solve this CAPTCHA</h1>'')"
    unfolding spec_contains_any_case_def by blast
  then have h: "spec_heuristic_condition (cps ''<h1>Solve this CAPTCHA</h1>'') 200"
    by (simp add: spec_heuristic_condition_def)
  show ?thesis
    using h heuristic_block_without_classifier [OF h, of example_env example_scraper] by simp
qed

text \<open>
  C2. If no indicator of the first stage is true (the status is none of 403, 429, 503 and
  the lower-cased body holds none of the three texts), \<open>_check_for_blocking\<close> calls the
  service exactly once, with the instruction followed by the first 1000 characters of
  the body; and if that call raises an error, or its reply has no choice, no content or
  content that \<open>json.loads\<close> rejects, the function returns False, after logging the
  error, and raises nothing.
\<close>

theorem classifier_once_and_fail_open:
  assumes "status \<notin> {403, 429, 503}"
    and "\<not> sublist (cps ''captcha'') (lower E body)"
    and "\<not> sublist (cps ''access denied'') (lower E body)"
    and "\<not> sublist (cps ''rate limit'') (lower E body)"
  shows "filter is_chat_create (snd (check_for_blocking E self body status)) =
           [ChatCreate (deployment_name self)
              (block_prompt @ cps ''\<newline>\<newline>First 1000 chars of HTML: '' @ take 1000 body)]
         \<and> (\<forall>m. chat_create E (deployment_name self) (block_message body) = Inl (Error m) \<or>
                 (\<exists>choices.
                    chat_create E (deployment_name self) (block_message body) = Inr choices \<and>
                    reply_json E choices = Inl (Error m))
               \<longrightarrow> check_for_blocking E self body status =
                     (Inr False, [ChatCreate (deployment_name self) (block_message body),
                                  Log (LlmBlockCheckError m)]))"
proof -
  have clear: "\<not> any (blocking_indicators E body status)"
    using assms by (simp add: any_def blocking_indicators_def)
  obtain rest where rest:
    "snd (check_for_blocking E self body status) =
       ChatCreate (deployment_name self) (block_message body) # rest"
    "rest = [] \<or> (\<exists>r. rest = [Log r])"
    using check_for_blocking_clear [OF clear, of self] by blast
  have "filter is_chat_create rest = []"
    using rest(2) by auto
  then have once: "filter is_chat_create (snd (check_for_blocking E self body status)) =
      [ChatCreate (deployment_name self) (block_message body)]"
    by (simp add: rest(1))
  show ?thesis
    using once check_for_blocking_fail_open [OF clear, of self]
    by (simp add: block_message_def)
qed

theorem classifier_once_and_fail_open_witness:
  "(200::int) \<notin> {403, 429, 503} \<and>
   \<not> sublist (cps ''captcha'') (lower env_service_down example_body) \<and>
   \<not> sublist (cps ''access denied'') (lower env_service_down example_body) \<and>
   \<not> sublist (cps ''rate limit'') (lower env_service_down example_body) \<and>
   check_for_blocking env_service_down example_scraper example_body 200 =
     (Inr False,
      [ChatCreate (cps ''gpt-4o'') (block_message example_body),
       Log (LlmBlockCheckError (cps ''Service unavailable''))])"
proof -
  have a: "(200::int) \<notin> {403, 429, 503}" by simp
  have b: "\<not> sublist (cps ''captcha'') (lower env_service_down example_body)"
    by (simp add: cps_def lower_def lower_cp_def example_body_def sublist_code)
  have c: "\<not> sublist (cps ''access denied'') (lower env_service_down example_body)"
    by (simp add: cps_def lower_def lower_cp_def example_body_def sublist_code)
  have d: "\<not> sublist (cps ''rate limit'') (lower env_service_down example_body)"
    by (simp add: cps_def lower_def lower_cp_def example_body_def sublist_code)
  have e: "chat_create env_service_down (deployment_name example_scraper)
             (block_message example_body) = Inl (Error (cps ''Service unavailable''))"
    by (simp add: env_service_down_def)
  have f: "deployment_name example_scraper = cps ''gpt-4o''"
    by (simp add: example_scraper_def init_def)
  show ?thesis
    using a b c d e classifier_once_and_fail_open [OF a b c d, of example_scraper]
    by (simp add: f)
qed

section \<open>The request\<close>

text \<open>
  C4. \<open>_safe_request\<close> makes exactly one GET request, whatever comes of it; and when the
  transport raises an error, it logs it and returns \<open>(None, 500)\<close>, raising nothing.
  (The headers exist whenever there is a user agent to choose, as there is after
  \<open>__init__\<close>.)
\<close>

theorem transport_failure_is_absent_500:
  assumes "get_headers E self = Inr headers"
  shows "filter is_http_get (snd (safe_request E self)) = [HttpGet (url self) headers]
         \<and> (\<forall>m. http_get E (url self) headers = Inl (Error m) \<longrightarrow>
                safe_request E self =
                  (Inr (None, 500), [HttpGet (url self) headers, Log (RequestFailed m)]))"
  by (cases "http_get E (url self) headers")
    (auto simp: safe_request_cases [OF assms] split: exn.splits)

theorem transport_failure_is_absent_500_witness:
  "get_headers env_transport_down example_scraper = Inr example_headers \<and>
   safe_request env_transport_down example_scraper =
     (Inr (None, 500),
      [HttpGet (cps ''https://shop.example/soap'') example_headers,
       Log (RequestFailed (cps ''Connection reset by peer''))])"
proof -
  have h: "get_headers env_transport_down example_scraper = Inr example_headers"
    by code_simp
  have u: "url example_scraper = cps ''https://shop.example/soap''"
    by (simp add: example_scraper_def init_def)
  have f: "http_get env_transport_down (url example_scraper) example_headers =
             Inl (Error (cps ''Connection reset by peer''))"
    by (simp add: env_transport_down_def)
  show ?thesis
    using h f transport_failure_is_absent_500 [OF h] by (simp add: u)
qed

section \<open>Evaluating the mocked world\<close>

lemma hd_block_message: "hd (block_message body) = 65"
  by (simp add: block_message_def block_prompt_def cps_def)

lemma hd_extract_message: "hd (extract_message clean) = 69"
  by (simp add: extract_message_def extract_prompt_def cps_def)

lemma example_body_clear: "any (blocking_indicators E example_body 200) = False"
  by (simp add: any_def blocking_indicators_def cps_def lower_def lower_cp_def
      example_body_def sublist_code)

lemmas world_defs =
  scrape_def safe_request_def check_for_blocking_def extract_data_with_llm_def reduce_html_def
  get_headers_def random_choice_def reply_json_def first_content_def loads_def py_get_def
  py_update_def str_of_found_def example_env_def example_scraper_def init_def example_chat_def
  example_loads_def example_replies_def example_record_def example_clean_html_def
  example_headers_def hd_block_message hd_extract_message example_body_clear
  io_simps try_simps ret_def cps_def

section \<open>The orchestrator, case by case\<close>

lemma scrape_fetch_raises:
  assumes "safe_request E self = (Inl x, e1)"
  shows "scrape E self = (Inl x, e1)"
  using assms by (simp add: scrape_def io_simps)

lemma scrape_absent:
  assumes "safe_request E self = (Inr (None, status), e1)"
  shows "scrape E self = (Inr None, e1)"
  using assms by (simp add: scrape_def io_simps ret_def)

lemma scrape_check_raises:
  assumes "safe_request E self = (Inr (Some html, status), e1)"
    and "check_for_blocking E self html status = (Inl x, e2)"
  shows "scrape E self = (Inl x, e1 @ e2)"
  using assms by (simp add: scrape_def io_simps)

lemma scrape_blocked:
  assumes "safe_request E self = (Inr (Some html, status), e1)"
    and "check_for_blocking E self html status = (Inr True, e2)"
  shows "scrape E self = (Inr None, e1 @ e2 @ [Log ScrapingBlocked])"
  using assms by (simp add: scrape_def io_simps ret_def)

lemma scrape_write_raises:
  assumes "safe_request E self = (Inr (Some html, status), e1)"
    and "check_for_blocking E self html status = (Inr False, e2)"
    and "file_write E (cps ''last_response.html'') html = Inl x"
  shows "scrape E self = (Inl x, e1 @ e2 @ [FileWrite (cps ''last_response.html'') html])"
  using assms by (simp add: scrape_def io_simps)

lemma scrape_extracts:
  assumes "safe_request E self = (Inr (Some html, status), e1)"
    and "check_for_blocking E self html status = (Inr False, e2)"
    and "file_write E (cps ''last_response.html'') html = Inr ()"
  shows "scrape E self =
           (fst (extract_data_with_llm E self html),
            e1 @ e2 @ [FileWrite (cps ''last_response.html'') html, Log SavedHtml] @
            snd (extract_data_with_llm E self html))"
  using assms by (simp add: scrape_def io_simps)

section \<open>The extractor, case by case\<close>

lemma reduce_html_events: "snd (reduce_html E html) = [SoupParse html]"
  by (cases "bs_parse E html") (simp_all add: reduce_html_def io_simps ret_def Let_def)

lemma extract_reduce_Error:
  assumes "fst (reduce_html E html) = Inl (Error m)"
  shows "extract_data_with_llm E self html =
           (Inr None, [SoupParse html, Log (LlmExtractionError m)])"
proof -
  have "reduce_html E html = (Inl (Error m), [SoupParse html])"
    using assms reduce_html_events [of E html] by (simp add: prod_eq_iff)
  then show ?thesis
    by (simp add: extract_data_with_llm_def io_simps try_simps ret_def)
qed

lemma extract_reduce_Signal:
  assumes "fst (reduce_html E html) = Inl (Signal m)"
  shows "extract_data_with_llm E self html = (Inl (Signal m), [SoupParse html])"
proof -
  have "reduce_html E html = (Inl (Signal m), [SoupParse html])"
    using assms reduce_html_events [of E html] by (simp add: prod_eq_iff)
  then show ?thesis
    by (simp add: extract_data_with_llm_def io_simps try_simps ret_def)
qed

lemma extract_cases:
  assumes "fst (reduce_html E html) = Inr clean"
  shows "extract_data_with_llm E self html =
           (case chat_create E (deployment_name self) (extract_message clean) of
              Inl (Error m) \<Rightarrow>
                (Inr None, [SoupParse html,
                            ChatCreate (deployment_name self) (extract_message clean),
                            Log (LlmExtractionError m)])
            | Inl (Signal m) \<Rightarrow>
                (Inl (Signal m), [SoupParse html,
                                  ChatCreate (deployment_name self) (extract_message clean)])
            | Inr choices \<Rightarrow>
                (case reply_json E choices of
                   Inl (Error m) \<Rightarrow>
                     (Inr None, [SoupParse html,
                                 ChatCreate (deployment_name self) (extract_message clean),
                                 Log (LlmExtractionError m)])
                 | Inl (Signal m) \<Rightarrow>
                     (Inl (Signal m), [SoupParse html,
                                       ChatCreate (deployment_name self) (extract_message clean)])
                 | Inr (JObj kvs) \<Rightarrow>
                     (Inr (Some (AList.update (cps ''url'') (JStr (url self))
                                  (AList.update (cps ''timestamp'') (JStr (now_isoformat E)) kvs))),
                      [SoupParse html,
                       ChatCreate (deployment_name self) (extract_message clean)])
                 | Inr other \<Rightarrow>
                     (Inr None, [SoupParse html,
                                 ChatCreate (deployment_name self) (extract_message clean),
                                 Log (LlmExtractionError (cps ''object has no attribute update''))])))"
proof -
  have r: "reduce_html E html = (Inr clean, [SoupParse html])"
    using assms reduce_html_events [of E html] by (simp add: prod_eq_iff)
  show ?thesis
    by (simp add: extract_data_with_llm_def r io_simps try_simps ret_def py_update_def
        split: sum.splits exn.splits json.splits)
qed


section \<open>What the earlier stages emit\<close>

lemma check_for_blocking_trace:
  "\<exists>logs. (snd (check_for_blocking E self body status) = map Log logs \<or>
           snd (check_for_blocking E self body status) =
             ChatCreate (deployment_name self) (block_message body) # map Log logs)"
proof (cases "any (blocking_indicators E body status)")
  case True
  then have "snd (check_for_blocking E self body status) = map Log [BlockingDetected status]"
    by (simp add: check_for_blocking_def io_simps ret_def)
  then show ?thesis by blast
next
  case False
  then obtain rest where rest:
    "snd (check_for_blocking E self body status) =
       ChatCreate (deployment_name self) (block_message body) # rest"
    "rest = [] \<or> (\<exists>r. rest = [Log r])"
    using check_for_blocking_clear [OF False, of self] by blast
  from rest(2) obtain logs where "rest = map Log logs"
  proof
    assume "rest = []"
    then have "rest = map Log []" by simp
    then show ?thesis using that by blast
  next
    assume "\<exists>r. rest = [Log r]"
    then obtain r where "rest = map Log [r]" by auto
    then show ?thesis using that by blast
  qed
  then show ?thesis using rest(1) by blast
qed

lemma prompts_differ: "\<not> prefix extract_prompt (block_message body)"
proof -
  obtain e where e: "extract_prompt = 69 # e"
    by (simp add: extract_prompt_def cps_def)
  obtain b where b: "block_message body = 65 # b"
    by (simp add: block_message_def block_prompt_def cps_def)
  show ?thesis by (simp add: e b)
qed

lemma logs_are_quiet:
  "\<not> list_ex is_extraction_event (map Log logs)" "\<not> list_ex is_file_write (map Log logs)"
  by (induction logs) simp_all

lemma check_for_blocking_quiet:
  "\<not> list_ex is_extraction_event (snd (check_for_blocking E self body status))"
  "\<not> list_ex is_file_write (snd (check_for_blocking E self body status))"
  using check_for_blocking_trace [of E self body status]
  by (auto simp: logs_are_quiet prompts_differ)

lemma safe_request_quiet:
  "\<not> list_ex is_extraction_event (snd (safe_request E self))"
  "\<not> list_ex is_file_write (snd (safe_request E self))"
proof -
  have "\<not> list_ex is_extraction_event (snd (safe_request E self)) \<and>
        \<not> list_ex is_file_write (snd (safe_request E self))"
  proof (cases "get_headers E self")
    case (Inl x)
    then show ?thesis
      by (cases x) (simp_all add: safe_request_def io_simps try_simps ret_def)
  next
    case (Inr headers)
    show ?thesis
      by (cases "http_get E (url self) headers")
        (auto simp: safe_request_cases [OF Inr] split: exn.splits)
  qed
  then show "\<not> list_ex is_extraction_event (snd (safe_request E self))"
    and "\<not> list_ex is_file_write (snd (safe_request E self))" by simp_all
qed

section \<open>The orchestrator\<close>

text \<open>
  C5. When the request returns no body, and when it returns a body and the block check
  returns True (as it does on status 403), \<open>scrape\<close> returns None and its trace holds no
  event of the extractor: neither the parse that starts the reduction of the markup nor
  a call of the service with the extraction instruction. And \<open>scrape\<close> returns a record
  only when the request returned a body and the block check returned False.
\<close>

theorem scrape_stops_when_absent_or_blocked:
  "(fst (safe_request E self) = Inr (None, status) \<longrightarrow>
      fst (scrape E self) = Inr None \<and>
      \<not> list_ex is_extraction_event (snd (scrape E self)))
   \<and> (fst (safe_request E self) = Inr (Some body, status) \<and>
       fst (check_for_blocking E self body status) = Inr True \<longrightarrow>
      fst (scrape E self) = Inr None \<and>
      \<not> list_ex is_extraction_event (snd (scrape E self)))
   \<and> (fst (scrape E self) = Inr (Some extracted) \<longrightarrow>
      (\<exists>html code. fst (safe_request E self) = Inr (Some html, code) \<and>
                   fst (check_for_blocking E self html code) = Inr False))"
proof (intro conjI impI)
  assume a: "fst (safe_request E self) = Inr (None, status)"
  then have s: "scrape E self = (Inr None, snd (safe_request E self))"
    using scrape_absent [of E self status "snd (safe_request E self)"]
    by (simp add: prod_eq_iff)
  show "fst (scrape E self) = Inr None" by (simp add: s)
  show "\<not> list_ex is_extraction_event (snd (scrape E self))"
    by (simp add: s safe_request_quiet)
next
  assume a: "fst (safe_request E self) = Inr (Some body, status) \<and>
             fst (check_for_blocking E self body status) = Inr True"
  have s: "scrape E self =
             (Inr None, snd (safe_request E self) @
                        snd (check_for_blocking E self body status) @ [Log ScrapingBlocked])"
    using a scrape_blocked [of E self body status "snd (safe_request E self)"
        "snd (check_for_blocking E self body status)"]
    by (simp add: prod_eq_iff)
  show "fst (scrape E self) = Inr None" by (simp add: s)
  show "\<not> list_ex is_extraction_event (snd (scrape E self))"
    using safe_request_quiet(1) [of E self] check_for_blocking_quiet(1) [of E self body status]
    by (auto simp: s list_ex_iff)
next
  assume a: "fst (scrape E self) = Inr (Some extracted)"
  obtain r1 e1 where f: "safe_request E self = (r1, e1)" by (cases "safe_request E self")
  show "\<exists>html code. fst (safe_request E self) = Inr (Some html, code) \<and>
                      fst (check_for_blocking E self html code) = Inr False"
  proof (cases r1)
    case (Inl x)
    then show ?thesis using a f scrape_fetch_raises [of E self x e1] by simp
  next
    case (Inr p)
    obtain content code where p: "p = (content, code)" by (cases p)
    show ?thesis
    proof (cases content)
      case None
      then show ?thesis using a f Inr p scrape_absent [of E self code e1] by simp
    next
      case (Some html)
      obtain r2 e2 where c: "check_for_blocking E self html code = (r2, e2)"
        by (cases "check_for_blocking E self html code")
      have f': "safe_request E self = (Inr (Some html, code), e1)"
        using f Inr p Some by simp
      show ?thesis
      proof (cases r2)
        case (Inl x)
        then show ?thesis using a c scrape_check_raises [OF f', of x e2] by simp
      next
        case verdict: (Inr blocked)
        show ?thesis
        proof (cases blocked)
          case True
          then show ?thesis using a c verdict scrape_blocked [OF f', of e2] by simp
        next
          case False
          then show ?thesis using f' c verdict by simp
        qed
      qed
    qed
  qed
qed


theorem scrape_stops_when_absent_or_blocked_witness:
  "fst (safe_request env_transport_down example_scraper) = Inr (None, 500) \<and>
   fst (scrape env_transport_down example_scraper) = Inr None \<and>
   \<not> list_ex is_extraction_event (snd (scrape env_transport_down example_scraper)) \<and>
   fst (safe_request env_forbidden example_scraper) = Inr (Some (cps ''Forbidden''), 403) \<and>
   fst (check_for_blocking env_forbidden example_scraper (cps ''Forbidden'') 403) = Inr True \<and>
   fst (scrape env_forbidden example_scraper) = Inr None \<and>
   \<not> list_ex is_extraction_event (snd (scrape env_forbidden example_scraper)) \<and>
   fst (scrape example_env example_scraper) = Inr (Some example_record) \<and>
   (\<exists>html code. fst (safe_request example_env example_scraper) = Inr (Some html, code) \<and>
                fst (check_for_blocking example_env example_scraper html code) = Inr False)"
proof -
  have a: "fst (safe_request env_transport_down example_scraper) = Inr (None, 500)"
    by (simp add: world_defs env_transport_down_def)
  have b: "fst (safe_request env_forbidden example_scraper) = Inr (Some (cps ''Forbidden''), 403)"
    by (simp add: world_defs env_forbidden_def)
  have c: "fst (check_for_blocking env_forbidden example_scraper (cps ''Forbidden'') 403) = Inr True"
    by (simp add: check_for_blocking_def any_def blocking_indicators_def io_simps ret_def)
  have d: "fst (scrape example_env example_scraper) = Inr (Some example_record)"
    by (simp add: world_defs)
  show ?thesis
    using a b c d
      scrape_stops_when_absent_or_blocked
        [where E = env_transport_down and self = example_scraper and status = 500]
      scrape_stops_when_absent_or_blocked
        [where E = env_forbidden and self = example_scraper and status = 403
           and body = "cps ''Forbidden''"]
      scrape_stops_when_absent_or_blocked
        [where E = example_env and self = example_scraper and extracted = example_record]
    by simp
qed

text \<open>
  C6. Once the markup is reduced, if the call of the extraction service raises an error,
  or its reply has no choice, no content or content that \<open>json.loads\<close> rejects,
  \<open>_extract_data_with_llm\<close> logs the error (line 191) and returns None, raising nothing;
  and \<open>scrape\<close>, having reached the extractor, returns None as well.
\<close>

theorem extraction_failure_is_soft:
  assumes "fst (reduce_html E html) = Inr clean"
    and "chat_create E (deployment_name self) (extract_message clean) = Inl (Error m) \<or>
         (\<exists>choices. chat_create E (deployment_name self) (extract_message clean) = Inr choices \<and>
                    reply_json E choices = Inl (Error m))"
  shows "extract_data_with_llm E self html =
           (Inr None,
            [SoupParse html,
             ChatCreate (deployment_name self) (extract_message clean),
             Log (LlmExtractionError m)])
         \<and> (\<forall>status e1 e2.
               safe_request E self = (Inr (Some html, status), e1) \<and>
               check_for_blocking E self html status = (Inr False, e2) \<and>
               file_write E (cps ''last_response.html'') html = Inr ()
               \<longrightarrow> fst (scrape E self) = Inr None)"
proof -
  have x: "extract_data_with_llm E self html =
             (Inr None,
              [SoupParse html,
               ChatCreate (deployment_name self) (extract_message clean),
               Log (LlmExtractionError m)])"
    using assms(2) by (auto simp: extract_cases [OF assms(1)])
  show ?thesis
  proof (intro conjI allI impI)
    show "extract_data_with_llm E self html =
            (Inr None,
             [SoupParse html,
              ChatCreate (deployment_name self) (extract_message clean),
              Log (LlmExtractionError m)])"
      by (rule x)
  next
    fix status e1 e2
    assume "safe_request E self = (Inr (Some html, status), e1) \<and>
            check_for_blocking E self html status = (Inr False, e2) \<and>
            file_write E (cps ''last_response.html'') html = Inr ()"
    then have "scrape E self =
        (fst (extract_data_with_llm E self html),
         e1 @ e2 @ [FileWrite (cps ''last_response.html'') html, Log SavedHtml] @
         snd (extract_data_with_llm E self html))"
      using scrape_extracts [of E self html status e1 e2] by simp
    then show "fst (scrape E self) = Inr None" by (simp add: x)
  qed
qed

theorem extraction_failure_is_soft_witness:
  "fst (reduce_html env_service_down example_body) = Inr example_clean_html \<and>
   chat_create env_service_down (deployment_name example_scraper)
     (extract_message example_clean_html) = Inl (Error (cps ''Service unavailable'')) \<and>
   extract_data_with_llm env_service_down example_scraper example_body =
     (Inr None,
      [SoupParse example_body,
       ChatCreate (deployment_name example_scraper) (extract_message example_clean_html),
       Log (LlmExtractionError (cps ''Service unavailable''))]) \<and>
   fst (scrape env_service_down example_scraper) = Inr None"
proof -
  have a: "fst (reduce_html env_service_down example_body) = Inr example_clean_html"
    by (simp add: world_defs env_service_down_def)
  have b: "chat_create env_service_down (deployment_name example_scraper)
             (extract_message example_clean_html) = Inl (Error (cps ''Service unavailable''))"
    by (simp add: env_service_down_def)
  have c: "safe_request env_service_down example_scraper =
             (Inr (Some example_body, 200), [HttpGet (url example_scraper) example_headers])"
    by (simp add: world_defs env_service_down_def)
  have d: "check_for_blocking env_service_down example_scraper example_body 200 =
             (Inr False,
              [ChatCreate (deployment_name example_scraper) (block_message example_body),
               Log (LlmBlockCheckError (cps ''Service unavailable''))])"
    by (simp add: world_defs env_service_down_def)
  have e: "file_write env_service_down (cps ''last_response.html'') example_body = Inr ()"
    by (simp add: env_service_down_def example_env_def)
  show ?thesis
    using a b c d e extraction_failure_is_soft [OF a, of example_scraper]
    by simp
qed

section \<open>The record the extractor returns\<close>

lemma extract_Some:
  assumes "fst (extract_data_with_llm E self html) = Inr (Some extracted)"
  shows "\<exists>clean choices kvs.
           fst (reduce_html E html) = Inr clean \<and>
           chat_create E (deployment_name self) (extract_message clean) = Inr choices \<and>
           reply_json E choices = Inr (JObj kvs) \<and>
           extracted =
             AList.update (cps ''url'') (JStr (url self))
               (AList.update (cps ''timestamp'') (JStr (now_isoformat E)) kvs)"
proof (cases "fst (reduce_html E html)")
  case (Inl x)
  then show ?thesis
    using assms extract_reduce_Error [of E html _ self] extract_reduce_Signal [of E html _ self]
    by (cases x) simp_all
next
  case (Inr clean)
  show ?thesis
    using assms
    by (auto simp: extract_cases [OF Inr] Inr split: sum.splits exn.splits json.splits)
qed

lemma stamp_keys_differ: "cps ''url'' \<noteq> cps ''timestamp''"
  by (simp add: cps_def)

lemma stamped_lookup:
  "map_of (AList.update (cps ''url'') u (AList.update (cps ''timestamp'') t kvs)) k =
     (if k = cps ''url'' then Some u
      else if k = cps ''timestamp'' then Some t
      else map_of kvs k)"
  by (simp add: update_conv')

text \<open>
  C10. Every record \<open>_extract_data_with_llm\<close> returns has the URL of the scraper under
  \<open>url\<close> and the time of the stamping under \<open>timestamp\<close>, whatever the reply of the
  service holds under these two keys: \<open>update\<close> overwrites them.
\<close>

theorem stamp_overwrites_reply_keys:
  assumes "fst (extract_data_with_llm E self html) = Inr (Some extracted)"
  shows "map_of extracted (cps ''url'') = Some (JStr (url self)) \<and>
         map_of extracted (cps ''timestamp'') = Some (JStr (now_isoformat E))"
proof -
  from extract_Some [OF assms] obtain kvs where
    "extracted =
       AList.update (cps ''url'') (JStr (url self))
         (AList.update (cps ''timestamp'') (JStr (now_isoformat E)) kvs)"
    by blast
  then show ?thesis
    using stamp_keys_differ by (simp add: stamped_lookup)
qed

theorem stamp_overwrites_reply_keys_witness:
  "fst (extract_data_with_llm env_own_url example_scraper example_body) =
     Inr (Some [(cps ''url'', JStr (cps ''https://shop.example/soap'')),
                (cps ''timestamp'', JStr (cps ''2024-05-01T12:00:00'')),
                (cps ''name'', JStr (cps ''Soap''))]) \<and>
   map_of [(cps ''url'', JStr (cps ''https://shop.example/soap'')),
           (cps ''timestamp'', JStr (cps ''2024-05-01T12:00:00'')),
           (cps ''name'', JStr (cps ''Soap''))] (cps ''url'') =
     Some (JStr (url example_scraper)) \<and>
   map_of [(cps ''url'', JStr (cps ''https://shop.example/soap'')),
           (cps ''timestamp'', JStr (cps ''2024-05-01T12:00:00'')),
           (cps ''name'', JStr (cps ''Soap''))] (cps ''timestamp'') =
     Some (JStr (now_isoformat env_own_url))"
proof -
  have h: "fst (extract_data_with_llm env_own_url example_scraper example_body) =
     Inr (Some [(cps ''url'', JStr (cps ''https://shop.example/soap'')),
                (cps ''timestamp'', JStr (cps ''2024-05-01T12:00:00'')),
                (cps ''name'', JStr (cps ''Soap''))])"
    by (simp add: world_defs env_own_url_def)
  show ?thesis
    using h stamp_overwrites_reply_keys [OF h]
    by (simp add: cps_def example_scraper_def init_def env_own_url_def example_env_def)
qed

text \<open>
  C3, as amended. The source does not coerce the price: the record's \<open>price\<close> is
  whatever the reply of the service holds under \<open>price\<close>, absent exactly when the reply
  has no such key. (The comma is turned into a dot, and the price into a number, only if
  the service follows the instruction it is sent.)
\<close>

theorem price_is_what_the_service_replied:
  assumes "fst (extract_data_with_llm E self html) = Inr (Some extracted)"
  shows "\<exists>clean choices kvs.
           fst (reduce_html E html) = Inr clean \<and>
           chat_create E (deployment_name self) (extract_message clean) = Inr choices \<and>
           reply_json E choices = Inr (JObj kvs) \<and>
           map_of extracted (cps ''price'') = map_of kvs (cps ''price'')"
proof -
  have "cps ''price'' \<noteq> cps ''url''" "cps ''price'' \<noteq> cps ''timestamp''"
    by (simp_all add: cps_def)
  then show ?thesis
    using extract_Some [OF assms] by (auto simp: stamped_lookup)
qed

theorem price_is_what_the_service_replied_witness:
  "fst (extract_data_with_llm example_env example_scraper example_body) =
     Inr (Some example_record) \<and>
   (\<exists>clean choices kvs.
      fst (reduce_html example_env example_body) = Inr clean \<and>
      chat_create example_env (deployment_name example_scraper) (extract_message clean) =
        Inr choices \<and>
      reply_json example_env choices = Inr (JObj kvs) \<and>
      map_of example_record (cps ''price'') = map_of kvs (cps ''price''))"
proof -
  have h: "fst (extract_data_with_llm example_env example_scraper example_body) =
             Inr (Some example_record)"
    by (simp add: world_defs)
  show ?thesis
    using h price_is_what_the_service_replied [OF h] by simp
qed

theorem price_not_coerced_counterexample:
  "reply_json env_free_price [Some (cps ''{\"name\": \"Soap\", \"price\": \"free\"}'')] =
     Inr (JObj [(cps ''name'', JStr (cps ''Soap'')), (cps ''price'', JStr (cps ''free''))]) \<and>
   fst (extract_data_with_llm env_free_price example_scraper example_body) =
     Inr (Some [(cps ''name'', JStr (cps ''Soap'')),
                (cps ''price'', JStr (cps ''free'')),
                (cps ''timestamp'', JStr (cps ''2024-05-01T12:00:00'')),
                (cps ''url'', JStr (cps ''https://shop.example/soap''))])"
  by (simp add: world_defs env_free_price_def)


section \<open>The debug artifact\<close>

lemma status_403_blocks: "any (blocking_indicators E body 403) = True"
  by (simp add: any_def blocking_indicators_def)

lemma extract_quiet: "\<not> list_ex is_file_write (snd (extract_data_with_llm E self html))"
proof (cases "fst (reduce_html E html)")
  case (Inl x)
  then show ?thesis
    using extract_reduce_Error [of E html _ self] extract_reduce_Signal [of E html _ self]
    by (cases x) simp_all
next
  case (Inr clean)
  show ?thesis
    by (simp add: extract_cases [OF Inr] split: sum.splits exn.splits json.splits)
qed

text \<open>
  C7, as amended. When the request returns a body and the block check returns False,
  \<open>scrape\<close> attempts exactly one write, of the raw body to \<open>last_response.html\<close>; and
  when that write succeeds, \<open>scrape\<close> goes on to the extractor and returns what it
  returns. When the block check returns True, by either stage, \<open>scrape\<close> returns None
  and writes nothing.
\<close>

theorem debug_write_after_clear_check:
  assumes "safe_request E self = (Inr (Some html, status), e1)"
  shows "(check_for_blocking E self html status = (Inr False, e2) \<longrightarrow>
            filter is_file_write (snd (scrape E self)) =
              [FileWrite (cps ''last_response.html'') html] \<and>
            (file_write E (cps ''last_response.html'') html = Inr () \<longrightarrow>
               scrape E self =
                 (fst (extract_data_with_llm E self html),
                  e1 @ e2 @ [FileWrite (cps ''last_response.html'') html, Log SavedHtml] @
                  snd (extract_data_with_llm E self html))))
         \<and> (fst (check_for_blocking E self html status) = Inr True \<longrightarrow>
              fst (scrape E self) = Inr None \<and>
              filter is_file_write (snd (scrape E self)) = [])"
proof (intro conjI impI)
  have q1: "filter is_file_write e1 = []"
    using safe_request_quiet(2) [of E self] assms by (simp add: list_ex_iff filter_empty_conv)
  have q2: "filter is_file_write (snd (check_for_blocking E self html status)) = []"
    using check_for_blocking_quiet(2) [of E self html status]
    by (simp add: list_ex_iff filter_empty_conv)
  have q3: "filter is_file_write (snd (extract_data_with_llm E self html)) = []"
    using extract_quiet [of E self html] by (simp add: list_ex_iff filter_empty_conv)
  {
    assume clear: "check_for_blocking E self html status = (Inr False, e2)"
    have q2': "filter is_file_write e2 = []"
      using q2 clear by simp
    show "filter is_file_write (snd (scrape E self)) =
            [FileWrite (cps ''last_response.html'') html]"
    proof (cases "file_write E (cps ''last_response.html'') html")
      case (Inl x)
      show ?thesis
        by (simp add: scrape_write_raises [OF assms clear Inl] q1 q2')
    next
      case (Inr u)
      then have w: "file_write E (cps ''last_response.html'') html = Inr ()" by simp
      show ?thesis
        by (simp add: scrape_extracts [OF assms clear w] q1 q2' q3)
    qed
    assume w: "file_write E (cps ''last_response.html'') html = Inr ()"
    show "scrape E self =
            (fst (extract_data_with_llm E self html),
             e1 @ e2 @ [FileWrite (cps ''last_response.html'') html, Log SavedHtml] @
             snd (extract_data_with_llm E self html))"
      by (rule scrape_extracts [OF assms clear w])
  }
  {
    assume "fst (check_for_blocking E self html status) = Inr True"
    then have blocked: "check_for_blocking E self html status =
                          (Inr True, snd (check_for_blocking E self html status))"
      by (simp add: prod_eq_iff)
    note s = scrape_blocked [OF assms blocked]
    show "fst (scrape E self) = Inr None" by (simp add: s)
    show "filter is_file_write (snd (scrape E self)) = []" by (simp add: s q1 q2)
  }
qed

theorem debug_write_after_clear_check_witness:
  "safe_request example_env example_scraper =
     (Inr (Some example_body, 200), [HttpGet (url example_scraper) example_headers]) \<and>
   check_for_blocking example_env example_scraper example_body 200 =
     (Inr False, [ChatCreate (deployment_name example_scraper) (block_message example_body)]) \<and>
   file_write example_env (cps ''last_response.html'') example_body = Inr () \<and>
   filter is_file_write (snd (scrape example_env example_scraper)) =
     [FileWrite (cps ''last_response.html'') example_body] \<and>
   fst (scrape example_env example_scraper) =
     fst (extract_data_with_llm example_env example_scraper example_body) \<and>
   safe_request env_classifier_blocks example_scraper =
     (Inr (Some example_body, 200), [HttpGet (url example_scraper) example_headers]) \<and>
   check_for_blocking env_classifier_blocks example_scraper example_body 200 =
     (Inr True,
      [ChatCreate (deployment_name example_scraper) (block_message example_body),
       Log (LlmDetectedBlocking (Some (JStr (cps ''robot check''))))]) \<and>
   fst (scrape env_classifier_blocks example_scraper) = Inr None \<and>
   filter is_file_write (snd (scrape env_classifier_blocks example_scraper)) = []"
proof -
  have a: "safe_request example_env example_scraper =
     (Inr (Some example_body, 200), [HttpGet (url example_scraper) example_headers])"
    by (simp add: world_defs)
  have b: "check_for_blocking example_env example_scraper example_body 200 =
     (Inr False, [ChatCreate (deployment_name example_scraper) (block_message example_body)])"
    by (simp add: world_defs)
  have c: "file_write example_env (cps ''last_response.html'') example_body = Inr ()"
    by (simp add: example_env_def)
  note t = debug_write_after_clear_check
    [OF a, of "[ChatCreate (deployment_name example_scraper) (block_message example_body)]"]
  have w: "filter is_file_write (snd (scrape example_env example_scraper)) =
             [FileWrite (cps ''last_response.html'') example_body]"
    using t b by blast
  have "scrape example_env example_scraper =
          (fst (extract_data_with_llm example_env example_scraper example_body),
           [HttpGet (url example_scraper) example_headers] @
           [ChatCreate (deployment_name example_scraper) (block_message example_body)] @
           [FileWrite (cps ''last_response.html'') example_body, Log SavedHtml] @
           snd (extract_data_with_llm example_env example_scraper example_body))"
    using t b c by blast
  then have x: "fst (scrape example_env example_scraper) =
                  fst (extract_data_with_llm example_env example_scraper example_body)"
    by simp
  have a': "safe_request env_classifier_blocks example_scraper =
     (Inr (Some example_body, 200), [HttpGet (url example_scraper) example_headers])"
    by (simp add: world_defs env_classifier_blocks_def)
  have b': "check_for_blocking env_classifier_blocks example_scraper example_body 200 =
     (Inr True,
      [ChatCreate (deployment_name example_scraper) (block_message example_body),
       Log (LlmDetectedBlocking (Some (JStr (cps ''robot check''))))])"
    by (simp add: world_defs env_classifier_blocks_def)
  note t' = debug_write_after_clear_check [OF a']
  have y: "fst (scrape env_classifier_blocks example_scraper) = Inr None"
    using t' b' by simp
  have z: "filter is_file_write (snd (scrape env_classifier_blocks example_scraper)) = []"
    using t' b' by simp
  show ?thesis
    by (intro conjI a b c w x a' b' y z)
qed

theorem debug_write_counterexample:
  "fst (safe_request env_forbidden example_scraper) = Inr (Some (cps ''Forbidden''), 403) \<and>
   filter is_file_write (snd (scrape env_forbidden example_scraper)) = [] \<and>
   fst (safe_request env_disk_full example_scraper) = Inr (Some example_body, 200) \<and>
   scrape env_disk_full example_scraper =
     (Inl (Error (cps ''No space left on device'')),
      [HttpGet (cps ''https://shop.example/soap'') example_headers,
       ChatCreate (cps ''gpt-4o'') (block_message example_body),
       FileWrite (cps ''last_response.html'') example_body])"
  by (simp add: world_defs status_403_blocks env_forbidden_def env_disk_full_def)

section \<open>The record of a run\<close>

text \<open>
  C8, as amended. When the request returns a body on which the block check returns
  False, the debug write succeeds, the reduction of the markup does not raise and the
  reply of the extraction service parses to a JSON object, \<open>scrape\<close> returns a record
  that holds the URL given to \<open>__init__\<close> under \<open>url\<close>, the time of the stamping under
  \<open>timestamp\<close>, and the fields of the reply under every other key.
\<close>

theorem scrape_returns_stamped_record:
  assumes "self = init E0 deployment u"
    and "fst (safe_request E self) = Inr (Some html, status)"
    and "fst (check_for_blocking E self html status) = Inr False"
    and "file_write E (cps ''last_response.html'') html = Inr ()"
    and "fst (reduce_html E html) = Inr clean"
    and "chat_create E (deployment_name self) (extract_message clean) = Inr choices"
    and "reply_json E choices = Inr (JObj kvs)"
  shows "\<exists>extracted.
           fst (scrape E self) = Inr (Some extracted) \<and>
           map_of extracted (cps ''url'') = Some (JStr u) \<and>
           map_of extracted (cps ''timestamp'') = Some (JStr (now_isoformat E)) \<and>
           (\<forall>k. k \<noteq> cps ''url'' \<and> k \<noteq> cps ''timestamp'' \<longrightarrow>
                map_of extracted k = map_of kvs k)"
proof -
  have f: "safe_request E self = (Inr (Some html, status), snd (safe_request E self))"
    using assms(2) by (simp add: prod_eq_iff)
  have c: "check_for_blocking E self html status =
             (Inr False, snd (check_for_blocking E self html status))"
    using assms(3) by (simp add: prod_eq_iff)
  have u: "url self = u" by (simp add: assms(1) init_def)
  have "fst (scrape E self) = fst (extract_data_with_llm E self html)"
    by (simp add: scrape_extracts [OF f c assms(4)])
  then have "fst (scrape E self) =
      Inr (Some (AList.update (cps ''url'') (JStr u)
                  (AList.update (cps ''timestamp'') (JStr (now_isoformat E)) kvs)))"
    by (simp add: extract_cases [OF assms(5)] assms(6) assms(7) u)
  then show ?thesis
    using stamp_keys_differ by (simp add: stamped_lookup)
qed

theorem scrape_returns_stamped_record_witness:
  "example_scraper = init example_env (cps ''gpt-4o'') (cps ''https://shop.example/soap'') \<and>
   fst (safe_request example_env example_scraper) = Inr (Some example_body, 200) \<and>
   fst (check_for_blocking example_env example_scraper example_body 200) = Inr False \<and>
   file_write example_env (cps ''last_response.html'') example_body = Inr () \<and>
   fst (reduce_html example_env example_body) = Inr example_clean_html \<and>
   chat_create example_env (deployment_name example_scraper)
     (extract_message example_clean_html) = Inr [Some (cps ''{\"name\": \"Soap\", \"price\": 9.99}'')] \<and>
   reply_json example_env [Some (cps ''{\"name\": \"Soap\", \"price\": 9.99}'')] =
     Inr (JObj [(cps ''name'', JStr (cps ''Soap'')), (cps ''price'', JFloat (Finite (999 / 100)))]) \<and>
   (\<exists>extracted.
      fst (scrape example_env example_scraper) = Inr (Some extracted) \<and>
      map_of extracted (cps ''url'') = Some (JStr (cps ''https://shop.example/soap'')) \<and>
      map_of extracted (cps ''timestamp'') = Some (JStr (now_isoformat example_env)))"
proof -
  have a: "example_scraper = init example_env (cps ''gpt-4o'') (cps ''https://shop.example/soap'')"
    by (simp add: example_scraper_def)
  have b: "fst (safe_request example_env example_scraper) = Inr (Some example_body, 200)"
    by (simp add: world_defs)
  have c: "fst (check_for_blocking example_env example_scraper example_body 200) = Inr False"
    by (simp add: world_defs)
  have d: "file_write example_env (cps ''last_response.html'') example_body = Inr ()"
    by (simp add: example_env_def)
  have e: "fst (reduce_html example_env example_body) = Inr example_clean_html"
    by (simp add: world_defs)
  have f: "chat_create example_env (deployment_name example_scraper)
     (extract_message example_clean_html) = Inr [Some (cps ''{\"name\": \"Soap\", \"price\": 9.99}'')]"
    by (simp add: example_env_def example_chat_def hd_extract_message)
  have g: "reply_json example_env [Some (cps ''{\"name\": \"Soap\", \"price\": 9.99}'')] =
     Inr (JObj [(cps ''name'', JStr (cps ''Soap'')), (cps ''price'', JFloat (Finite (999 / 100)))])"
    by (simp add: world_defs)
  show ?thesis
    using a b c d e f g scrape_returns_stamped_record [OF a b c d e f g]
    by auto
qed

theorem scrape_record_counterexample:
  "fst (safe_request env_array_reply example_scraper) = Inr (Some example_body, 200) \<and>
   fst (check_for_blocking env_array_reply example_scraper example_body 200) = Inr False \<and>
   chat_create env_array_reply (deployment_name example_scraper)
     (extract_message example_clean_html) = Inr [Some (cps ''[1]'')] \<and>
   reply_json env_array_reply [Some (cps ''[1]'')] = Inr (JArr [JInt 1]) \<and>
   fst (scrape env_array_reply example_scraper) = Inr None \<and>
   fst (scrape env_parser_fails example_scraper) = Inr None \<and>
   fst (scrape env_disk_full example_scraper) =
     Inl (Error (cps ''No space left on device''))"
  by (simp add: world_defs env_array_reply_def env_parser_fails_def env_disk_full_def)


section \<open>Two runs\<close>













end
